theory Spec2Isabelle
  imports Complex_Main "HOL-Library.AList" "HOL-Library.Product_Lexorder"
begin

section \<open>Data model\<close>

text \<open>
  The rows of \<^verbatim>\<open>models.py\<close> and the request bodies of \<^verbatim>\<open>schemas.py\<close>, one record each.
  Python's \<^verbatim>\<open>int\<close> is \<^typ>\<open>int\<close>, a nullable column is an \<^typ>\<open>'a option\<close>, and a
  finite \<^verbatim>\<open>float\<close> is the \<^typ>\<open>real\<close> it denotes: the allocation arithmetic is carried out
  exactly (its rounding is not modelled), the sums of the percentage validation are Python's.
  Field names carry a prefix where two classes share a name.  Of the primary keys only
  those the handlers read (\<^verbatim>\<open>UserPlan.id\<close>, \<^verbatim>\<open>Meal.id\<close>) are kept.
\<close>

record User =
  user_id :: int
  timezone :: "string option"

record UserPlan =
  plan_id :: int
  plan_user_id :: int
  on_kcal :: int
  on_carb :: int
  on_pro :: int
  on_fat :: int
  off_kcal :: int
  off_carb :: int
  off_pro :: int
  off_fat :: int

record UserDistribution =
  dist_plan_id :: int
  dist_is_on :: bool
  dist_name :: string
  sort_order :: int
  start_min :: "int option"
  end_min :: "int option"

record DistributionTarget =
  tgt_plan_id :: int
  tgt_is_on :: bool
  tgt_name :: string
  tgt_pct_carb :: real
  tgt_pct_pro :: real
  tgt_pct_fat :: real

record UserDayMode =
  dm_user_id :: int
  dm_weekday :: int
  dm_is_on :: bool

record Meal =
  meal_id :: int
  meal_user_id :: int
  meal_when :: int
  meal_slot :: string

record MealItem =
  item_meal_id :: int
  item_food_name :: string
  item_grams :: real
  item_pro :: real
  item_carb :: real
  item_fat :: real

record PlanLimits =
  kcal :: int
  carb :: int
  pro :: int
  fat :: int

record DistributionDef =
  def_name :: string
  def_sort_order :: int
  def_start_min :: "int option"
  def_end_min :: "int option"

record DistributionPct =
  pct_name :: string
  pct_carb :: real
  pct_pro :: real
  pct_fat :: real

record PlanPayload =
  on_distributions :: "DistributionDef list"
  off_distributions :: "DistributionDef list"
  on_limits :: PlanLimits
  off_limits :: PlanLimits
  on_pcts :: "DistributionPct list"
  off_pcts :: "DistributionPct list"

record SchedulePayload =
  on_days :: "int list"
  off_days :: "int list"

record MealItemIn =
  in_food_name :: string
  in_grams :: real
  in_pro :: real
  in_carb :: real
  in_fat :: real

record MealIn =
  in_when :: int
  in_slot :: "string option"
  in_items :: "MealItemIn list"

section \<open>Store, session and errors\<close>

text \<open>
  A table is the list of its rows in insertion order.  A SQLAlchemy session
  (\<^verbatim>\<open>autocommit=False\<close>) is the committed store together with the store as the open
  transaction sees it; \<^verbatim>\<open>db.commit()\<close> publishes the latter, and \<^verbatim>\<open>db.close()\<close> in the
  \<^verbatim>\<open>finally\<close> of \<^verbatim>\<open>get_db\<close> drops whatever was not committed.
\<close>

record database =
  plans :: "UserPlan list"
  distributions :: "UserDistribution list"
  targets :: "DistributionTarget list"
  day_modes :: "UserDayMode list"
  meals :: "Meal list"
  meal_items :: "MealItem list"

record session =
  committed :: database
  working :: database

datatype error =
  HTTPException int string
  | ZoneInfoNotFoundError string
  | ValueError string
  | IntegrityError string
  | OverflowError string

definition get_db :: "database \<Rightarrow> session" where
  "get_db db = \<lparr>committed = db, working = db\<rparr>"

definition commit :: "session \<Rightarrow> session" where
  "commit s = s\<lparr>committed := working s\<rparr>"

definition rollback :: "session \<Rightarrow> session" where
  "rollback s = s\<lparr>working := committed s\<rparr>"

definition close :: "session \<Rightarrow> database" where
  "close s = committed s"

text \<open>One request: FastAPI opens the session, runs the handler, and closes the session
  whether the handler returned or raised.\<close>

definition request :: "(session \<Rightarrow> (error + 'a) \<times> session) \<Rightarrow> database \<Rightarrow> (error + 'a) \<times> database" where
  "request handler db = (case handler (get_db db) of (r, s) \<Rightarrow> (r, close s))"

section \<open>Time resolution\<close>

text \<open>
  The zone database and the clock are outside the repository: \<open>known_zone\<close> says which
  keys \<^verbatim>\<open>ZoneInfo\<close> accepts, \<open>zone_error\<close> is the exception it raises for a key it does not
  accept (\<^verbatim>\<open>ZoneInfoNotFoundError\<close> for a key that is not in the database, \<^verbatim>\<open>ValueError\<close> for
  an absolute or non-normalised path), and \<open>now\<close> is \<^verbatim>\<open>datetime.now(tz)\<close>.  Of the local
  instant the handlers read the weekday, the hour, the minute and the two UTC bounds of the
  local day.
\<close>

record local_time =
  weekday :: int
  hour :: int
  minute :: int
  d0_utc :: int
  d1_utc :: int

record world =
  known_zone :: "string \<Rightarrow> bool"
  zone_error :: "string \<Rightarrow> error"
  now :: "string \<Rightarrow> local_time"

definition ZoneInfo :: "world \<Rightarrow> string \<Rightarrow> error + string" where
  "ZoneInfo w key = (if known_zone w key then Inr key else Inl (zone_error w key))"

text \<open>Python's \<^verbatim>\<open>x or d\<close> on an optional string: \<^verbatim>\<open>None\<close> and the empty string are falsy.\<close>

definition str_or :: "string option \<Rightarrow> string \<Rightarrow> string" where
  "str_or x d = (case x of None \<Rightarrow> d | Some v \<Rightarrow> if v = [] then d else v)"

section \<open>Store integers and double sums\<close>

text \<open>
  Two more things the handlers take from outside.  \<open>integer_ok\<close> is the range of the
  store's \<^verbatim>\<open>INTEGER\<close> columns (32 bits on PostgreSQL, 64 on SQLite): a Python \<^verbatim>\<open>int\<close>
  outside it makes the statement that carries it fail when it is sent
  (\<^verbatim>\<open>OverflowError\<close> from the SQLite driver, a \<^verbatim>\<open>DataError\<close> elsewhere; never an
  \<^verbatim>\<open>HTTPException\<close>).  \<open>float_sum\<close> is Python's \<^verbatim>\<open>sum\<close> over doubles, which rounds, and
  not in the same way in every Python version.  A finite double is read as the real number
  it denotes; NaN and the infinities are not values of the model.
\<close>

record platform =
  integer_ok :: "int \<Rightarrow> bool"
  float_sum :: "real list \<Rightarrow> real"

definition overflow_detail :: string where
  "overflow_detail = ''Python int too large to convert to SQLite INTEGER''"

section \<open>Schedule, plan bootstrap and distributions\<close>

definition query_day_mode :: "database \<Rightarrow> int \<Rightarrow> int \<Rightarrow> UserDayMode option" where
  "query_day_mode db uid wd = find (\<lambda>m. dm_user_id m = uid \<and> dm_weekday m = wd) (day_modes db)"

definition query_plan :: "database \<Rightarrow> int \<Rightarrow> UserPlan option" where
  "query_plan db uid = find (\<lambda>p. plan_user_id p = uid) (plans db)"

text \<open>The key the store gives a new row: above every key in the table.\<close>

definition next_id :: "int list \<Rightarrow> int" where
  "next_id ids = fold max ids 0 + 1"

definition on_names :: "string list" where
  "on_names = [''pre-workout'', ''intra-workout'', ''post-workout'', ''pranzo'', ''cena'']"

definition off_names :: "string list" where
  "off_names = [''colazione'', ''pranzo'', ''cena'', ''snack'']"

definition new_distribution :: "int \<Rightarrow> bool \<Rightarrow> nat \<times> string \<Rightarrow> UserDistribution" where
  "new_distribution pid b p =
     \<lparr>dist_plan_id = pid, dist_is_on = b, dist_name = snd p, sort_order = int (fst p),
      start_min = None, end_min = None\<rparr>"

text \<open>The body of \<^verbatim>\<open>if not plan:\<close>, which \<^verbatim>\<open>get_today_profile_and_distributions\<close> and
  \<^verbatim>\<open>get_plan\<close> both carry word for word: add the plan, flush (the key is assigned), add the
  nine distributions, commit.\<close>

definition bootstrap_plan :: "int \<Rightarrow> session \<Rightarrow> UserPlan \<times> session" where
  "bootstrap_plan uid s =
     (let db = working s;
          plan = \<lparr>plan_id = next_id (map plan_id (plans db)), plan_user_id = uid,
                  on_kcal = 2600, on_carb = 360, on_pro = 194, on_fat = 45,
                  off_kcal = 2200, off_carb = 200, off_pro = 194, off_fat = 55\<rparr>;
          db1 = db\<lparr>plans := plans db @ [plan]\<rparr>;
          db2 = db1\<lparr>distributions := distributions db1
                   @ map (new_distribution (plan_id plan) True) (enumerate 0 on_names)
                   @ map (new_distribution (plan_id plan) False) (enumerate 0 off_names)\<rparr>
      in (plan, commit (s\<lparr>working := db2\<rparr>)))"

definition query_distributions :: "database \<Rightarrow> int \<Rightarrow> bool \<Rightarrow> UserDistribution list" where
  "query_distributions db pid b =
     sort_key sort_order (filter (\<lambda>d. dist_plan_id d = pid \<and> dist_is_on d = b) (distributions db))"

definition plan_limits :: "UserPlan \<Rightarrow> bool \<Rightarrow> PlanLimits" where
  "plan_limits plan b =
     \<lparr>kcal = (if b then on_kcal plan else off_kcal plan),
      carb = (if b then on_carb plan else off_carb plan),
      pro = (if b then on_pro plan else off_pro plan),
      fat = (if b then on_fat plan else off_fat plan)\<rparr>"

type_synonym profile = "bool \<times> UserDistribution list \<times> PlanLimits \<times> string \<times> local_time"

definition get_today_profile_and_distributions ::
    "world \<Rightarrow> User \<Rightarrow> session \<Rightarrow> (error + profile) \<times> session" where
  "get_today_profile_and_distributions w current s =
     (case ZoneInfo w (str_or (timezone current) ''Europe/Rome'') of
        Inl e \<Rightarrow> (Inl e, s)
      | Inr tz \<Rightarrow>
          (let now_local = now w tz;
               mode = query_day_mode (working s) (user_id current) (weekday now_local);
               is_on = (case mode of None \<Rightarrow> False | Some m \<Rightarrow> dm_is_on m);
               (plan, s1) = (case query_plan (working s) (user_id current) of
                               Some p \<Rightarrow> (p, s)
                             | None \<Rightarrow> bootstrap_plan (user_id current) s);
               dists = query_distributions (working s1) (plan_id plan) is_on
           in (Inr (is_on, dists, plan_limits plan is_on, tz, now_local), s1)))"

section \<open>Slot resolution\<close>

fun auto_slot_loop :: "UserDistribution list \<Rightarrow> int \<Rightarrow> string option" where
  "auto_slot_loop [] m = None"
| "auto_slot_loop (d # ds) m =
     (case start_min d of
        None \<Rightarrow> auto_slot_loop ds m
      | Some a \<Rightarrow>
          (case end_min d of
             None \<Rightarrow> auto_slot_loop ds m
           | Some b \<Rightarrow>
               if a \<le> b then (if a \<le> m \<and> m \<le> b then Some (dist_name d) else auto_slot_loop ds m)
               else (if m \<ge> a \<or> m \<le> b then Some (dist_name d) else auto_slot_loop ds m)))"

definition no_slot_detail :: string where
  "no_slot_detail = ''Nessuna distribuzione corrisponde all'' @ [CHR 0x27]
     @ ''orario corrente: definisci le fasce in Impostazioni.''"

definition auto_slot_for_now :: "world \<Rightarrow> User \<Rightarrow> session \<Rightarrow> (error + string) \<times> session" where
  "auto_slot_for_now w current s =
     (case get_today_profile_and_distributions w current s of
        (Inl e, s1) \<Rightarrow> (Inl e, s1)
      | (Inr (is_on, dists, limits, tz, now_local), s1) \<Rightarrow>
          (case auto_slot_loop dists (hour now_local * 60 + minute now_local) of
             Some n \<Rightarrow> (Inr n, s1)
           | None \<Rightarrow> (Inl (HTTPException 400 no_slot_detail), s1)))"

section \<open>Meal creation\<close>

record MealCreated =
  created_meal_id :: int
  created_user_id :: int
  created_slot :: string

text \<open>\<^verbatim>\<open>str(e)\<close> of the exceptions that are not \<^verbatim>\<open>HTTPException\<close>: a \<^verbatim>\<open>KeyError\<close> prints
  its argument quoted.\<close>

fun exc_str :: "error \<Rightarrow> string" where
  "exc_str (HTTPException c d) = d"
| "exc_str (ZoneInfoNotFoundError msg) = [CHR 0x27] @ msg @ [CHR 0x27]"
| "exc_str (ValueError msg) = msg"
| "exc_str (IntegrityError msg) = msg"
| "exc_str (OverflowError msg) = msg"

definition new_item :: "int \<Rightarrow> MealItemIn \<Rightarrow> MealItem" where
  "new_item mid it =
     \<lparr>item_meal_id = mid, item_food_name = in_food_name it, item_grams = in_grams it,
      item_pro = in_pro it, item_carb = in_carb it, item_fat = in_fat it\<rparr>"

text \<open>The \<^verbatim>\<open>try\<close> body of \<^verbatim>\<open>create_meal\<close>.\<close>

definition create_meal_body :: "world \<Rightarrow> MealIn \<Rightarrow> User \<Rightarrow> session \<Rightarrow> (error + MealCreated) \<times> session" where
  "create_meal_body w meal current s =
     (case (if str_or (in_slot meal) [] = [] then auto_slot_for_now w current s
            else (Inr (str_or (in_slot meal) []), s)) of
        (Inl e, s1) \<Rightarrow> (Inl e, s1)
      | (Inr slot, s1) \<Rightarrow>
          (let db = working s1;
               m = \<lparr>meal_id = next_id (map meal_id (meals db)), meal_user_id = user_id current,
                    meal_when = in_when meal, meal_slot = slot\<rparr>;
               db1 = db\<lparr>meals := meals db @ [m]\<rparr>;
               db2 = db1\<lparr>meal_items := meal_items db1 @ map (new_item (meal_id m)) (in_items meal)\<rparr>
           in (Inr \<lparr>created_meal_id = meal_id m, created_user_id = user_id current,
                    created_slot = slot\<rparr>,
               commit (s1\<lparr>working := db2\<rparr>))))"

definition create_meal :: "world \<Rightarrow> MealIn \<Rightarrow> User \<Rightarrow> session \<Rightarrow> (error + MealCreated) \<times> session" where
  "create_meal w meal current s =
     (case create_meal_body w meal current s of
        (Inl (HTTPException c d), s1) \<Rightarrow> (Inl (HTTPException c d), s1)
      | (Inl e, s1) \<Rightarrow> (Inl (HTTPException 400 (''Errore create_meal: '' @ exc_str e)), rollback s1)
      | (Inr r, s1) \<Rightarrow> (Inr r, s1))"

section \<open>Allocation\<close>

record macros =
  m_kcal :: real
  m_pro :: real
  m_carb :: real
  m_fat :: real

record MealSummary =
  sum_meal_id :: int
  sum_when :: int
  sum_slot :: string
  sum_macros :: macros

record SlotEntry =
  slot :: string
  used :: macros
  target :: macros

record TodayOut =
  kcal_limits :: PlanLimits
  is_on :: bool
  day_totals :: macros
  by_slot :: "SlotEntry list"
  meals_out :: "MealSummary list"

datatype macro_key = Carb | Pro | Fat

record pcts =
  p_carb :: real
  p_pro :: real
  p_fat :: real

fun pct_get :: "pcts \<Rightarrow> macro_key \<Rightarrow> real" where
  "pct_get p Carb = p_carb p"
| "pct_get p Pro = p_pro p"
| "pct_get p Fat = p_fat p"

definition zero_macros :: macros where
  "zero_macros = \<lparr>m_kcal = 0, m_pro = 0, m_carb = 0, m_fat = 0\<rparr>"

definition meal_macros :: "MealItem list \<Rightarrow> macros" where
  "meal_macros items =
     (let p = sum_list (map (\<lambda>i. item_pro i * (item_grams i / 100)) items);
          c = sum_list (map (\<lambda>i. item_carb i * (item_grams i / 100)) items);
          f = sum_list (map (\<lambda>i. item_fat i * (item_grams i / 100)) items)
      in \<lparr>m_kcal = p * 4 + c * 4 + f * 9, m_pro = p, m_carb = c, m_fat = f\<rparr>)"

text \<open>The \<^verbatim>\<open>for m in meals\<close> loop: the summaries, the three running totals and the
  per-slot dictionary are the loop's state.\<close>

fun meals_loop :: "database \<Rightarrow> Meal list \<Rightarrow> MealSummary list \<times> real \<times> real \<times> real \<times> (string \<rightharpoonup> macros)
    \<Rightarrow> MealSummary list \<times> real \<times> real \<times> real \<times> (string \<rightharpoonup> macros)" where
  "meals_loop db [] acc = acc"
| "meals_loop db (m # ms) (result, tot_pro, tot_carb, tot_fat, slot_stats) =
     (let items = filter (\<lambda>i. item_meal_id i = meal_id m) (meal_items db);
          mm = meal_macros items;
          s = (case slot_stats (meal_slot m) of None \<Rightarrow> zero_macros | Some v \<Rightarrow> v);
          s' = \<lparr>m_kcal = m_kcal s + m_kcal mm, m_pro = m_pro s + m_pro mm,
                m_carb = m_carb s + m_carb mm, m_fat = m_fat s + m_fat mm\<rparr>
      in meals_loop db ms
           (result @ [\<lparr>sum_meal_id = meal_id m, sum_when = meal_when m, sum_slot = meal_slot m,
                        sum_macros = mm\<rparr>],
            tot_pro + m_pro mm, tot_carb + m_carb mm, tot_fat + m_fat mm,
            slot_stats(meal_slot m \<mapsto> s')))"

text \<open>The targets of the user's plans in the day's mode (the join with \<^verbatim>\<open>UserPlan\<close>).\<close>

definition query_targets :: "database \<Rightarrow> int \<Rightarrow> bool \<Rightarrow> DistributionTarget list" where
  "query_targets db uid b =
     filter (\<lambda>t. list_ex (\<lambda>p. plan_id p = tgt_plan_id t \<and> plan_user_id p = uid) (plans db)
                 \<and> tgt_is_on t = b) (targets db)"

definition pct_map_of :: "DistributionTarget list \<Rightarrow> (string \<rightharpoonup> pcts)" where
  "pct_map_of ts =
     fold (\<lambda>t m. m(tgt_name t \<mapsto> \<lparr>p_carb = tgt_pct_carb t, p_pro = tgt_pct_pro t, p_fat = tgt_pct_fat t\<rparr>))
          ts Map.empty"

definition pct_or_uniform :: "(string \<rightharpoonup> pcts) \<Rightarrow> int \<Rightarrow> string \<Rightarrow> macro_key \<Rightarrow> real" where
  "pct_or_uniform pct_map n name key =
     (case pct_map name of Some p \<Rightarrow> pct_get p key | None \<Rightarrow> 100 / real_of_int n)"

definition slot_entry :: "PlanLimits \<Rightarrow> (string \<rightharpoonup> pcts) \<Rightarrow> int \<Rightarrow> (string \<rightharpoonup> macros) \<Rightarrow> string \<Rightarrow> SlotEntry" where
  "slot_entry limits pct_map n slot_stats name =
     (let tc = real_of_int (carb limits) * pct_or_uniform pct_map n name Carb / 100;
          tp = real_of_int (pro limits) * pct_or_uniform pct_map n name Pro / 100;
          tf = real_of_int (fat limits) * pct_or_uniform pct_map n name Fat / 100
      in \<lparr>slot = name,
          used = (case slot_stats name of None \<Rightarrow> zero_macros | Some v \<Rightarrow> v),
          target = \<lparr>m_kcal = tc * 4 + tp * 4 + tf * 9, m_pro = tp, m_carb = tc, m_fat = tf\<rparr>\<rparr>)"

definition meals_today :: "world \<Rightarrow> User \<Rightarrow> session \<Rightarrow> (error + TodayOut) \<times> session" where
  "meals_today w current s =
     (case get_today_profile_and_distributions w current s of
        (Inl e, s1) \<Rightarrow> (Inl e, s1)
      | (Inr (on, dists, limits, tz, now_local), s1) \<Rightarrow>
          (let db = working s1;
               ms = filter (\<lambda>m. meal_user_id m = user_id current \<and> meal_when m \<ge> d0_utc now_local
                                \<and> meal_when m < d1_utc now_local) (meals db);
               (result, tot_pro, tot_carb, tot_fat, slot_stats) = meals_loop db ms ([], 0, 0, 0, Map.empty);
               pct_map = pct_map_of (query_targets db (user_id current) on);
               names = map dist_name dists;
               n = max 1 (int (length names))
           in (Inr \<lparr>kcal_limits = limits, is_on = on,
                    day_totals = \<lparr>m_kcal = tot_pro * 4 + tot_carb * 4 + tot_fat * 9,
                                  m_pro = tot_pro, m_carb = tot_carb, m_fat = tot_fat\<rparr>,
                    by_slot = map (slot_entry limits pct_map n slot_stats) names,
                    meals_out = result\<rparr>, s1)))"

section \<open>Plan store\<close>

definition dist_out :: "UserDistribution \<Rightarrow> DistributionDef" where
  "dist_out d = \<lparr>def_name = dist_name d, def_sort_order = sort_order d,
                 def_start_min = start_min d, def_end_min = end_min d\<rparr>"

text \<open>\<^verbatim>\<open>t_map\<close> is a dictionary read back in insertion order: an association list whose
  update keeps the place of a key already present.\<close>

definition t_map_of :: "DistributionTarget list \<Rightarrow> ((string \<times> string) \<times> pcts) list" where
  "t_map_of ts =
     fold (\<lambda>x m. AList.update (if tgt_is_on x then ''ON'' else ''OFF'', tgt_name x)
                    \<lparr>p_carb = tgt_pct_carb x, p_pro = tgt_pct_pro x, p_fat = tgt_pct_fat x\<rparr> m)
          ts []"

definition pcts_out :: "string \<Rightarrow> ((string \<times> string) \<times> pcts) list \<Rightarrow> DistributionPct list" where
  "pcts_out grp t_map =
     map (\<lambda>kv. \<lparr>pct_name = snd (fst kv), pct_carb = p_carb (snd kv), pct_pro = p_pro (snd kv),
                pct_fat = p_fat (snd kv)\<rparr>)
         (filter (\<lambda>kv. fst (fst kv) = grp) t_map)"

definition get_plan :: "User \<Rightarrow> session \<Rightarrow> (error + PlanPayload) \<times> session" where
  "get_plan current s =
     (let (plan, s1) = (case query_plan (working s) (user_id current) of
                          Some p \<Rightarrow> (p, s)
                        | None \<Rightarrow> bootstrap_plan (user_id current) s);
          db = working s1;
          dists = sort_key (\<lambda>d. (\<not> dist_is_on d, sort_order d))
                    (filter (\<lambda>d. dist_plan_id d = plan_id plan) (distributions db));
          t_map = t_map_of (filter (\<lambda>t. tgt_plan_id t = plan_id plan) (targets db))
      in (Inr \<lparr>on_distributions = map dist_out (filter dist_is_on dists),
               off_distributions = map dist_out (filter (\<lambda>d. \<not> dist_is_on d) dists),
               on_limits = plan_limits plan True,
               off_limits = plan_limits plan False,
               on_pcts = pcts_out ''ON'' t_map,
               off_pcts = pcts_out ''OFF'' t_map\<rparr>, s1))"

definition pct_detail :: string where
  "pct_detail = ''Le percentuali C/P/F per gruppo devono sommare 100%''"

definition no_plan_detail :: string where
  "no_plan_detail = ''Nessun piano trovato per questo utente''"

text \<open>The three sums are Python's \<^verbatim>\<open>sum\<close> over the doubles.  The test \<^verbatim>\<open>abs(v - 100.0) > 0.5\<close>
  on a double \<open>v\<close> is the test on the real number: the subtraction is exact for \<open>v\<close> from 50
  to 200, and for any other \<open>v\<close> both differences are at least 50.\<close>

definition validate_sum :: "platform \<Rightarrow> DistributionPct list \<Rightarrow> error + unit" where
  "validate_sum pf ps =
     (let sc = (if ps \<noteq> [] then float_sum pf (map pct_carb ps) else 0);
          sp = (if ps \<noteq> [] then float_sum pf (map pct_pro ps) else 0);
          sf = (if ps \<noteq> [] then float_sum pf (map pct_fat ps) else 0)
      in if list_ex (\<lambda>v. \<bar>v - 100\<bar> > 0.5) [sc, sp, sf]
         then Inl (HTTPException 400 pct_detail) else Inr ())"

text \<open>The integers a \<^verbatim>\<open>PUT /plan\<close> sends to \<^verbatim>\<open>INTEGER\<close> columns: the eight limits, written by
  the \<^verbatim>\<open>UPDATE\<close> of the flush, and each distribution's sort order and window bounds, written
  by its \<^verbatim>\<open>INSERT\<close>.\<close>

definition limits_fit :: "platform \<Rightarrow> PlanPayload \<Rightarrow> bool" where
  "limits_fit pf payload =
     list_all (integer_ok pf)
       [kcal (on_limits payload), carb (on_limits payload), pro (on_limits payload),
        fat (on_limits payload), kcal (off_limits payload), carb (off_limits payload),
        pro (off_limits payload), fat (off_limits payload)]"

definition dist_fits :: "platform \<Rightarrow> DistributionDef \<Rightarrow> bool" where
  "dist_fits pf d =
     (integer_ok pf (def_sort_order d)
      \<and> (case def_start_min d of None \<Rightarrow> True | Some v \<Rightarrow> integer_ok pf v)
      \<and> (case def_end_min d of None \<Rightarrow> True | Some v \<Rightarrow> integer_ok pf v))"

definition dist_of_def :: "int \<Rightarrow> bool \<Rightarrow> DistributionDef \<Rightarrow> UserDistribution" where
  "dist_of_def pid b d =
     \<lparr>dist_plan_id = pid, dist_is_on = b, dist_name = def_name d, sort_order = def_sort_order d,
      start_min = def_start_min d, end_min = def_end_min d\<rparr>"

definition target_of_pct :: "int \<Rightarrow> bool \<Rightarrow> DistributionPct \<Rightarrow> DistributionTarget" where
  "target_of_pct pid b x =
     \<lparr>tgt_plan_id = pid, tgt_is_on = b, tgt_name = pct_name x, tgt_pct_carb = pct_carb x,
      tgt_pct_pro = pct_pro x, tgt_pct_fat = pct_fat x\<rparr>"

text \<open>The INSERTs of the pending target rows under
  \<^verbatim>\<open>UniqueConstraint("plan_id", "is_on", "name")\<close>.\<close>

fun insert_targets :: "DistributionTarget list \<Rightarrow> DistributionTarget list \<Rightarrow> error + DistributionTarget list" where
  "insert_targets [] tbl = Inr tbl"
| "insert_targets (t # ts) tbl =
     (if list_ex (\<lambda>r. tgt_plan_id r = tgt_plan_id t \<and> tgt_is_on r = tgt_is_on t \<and> tgt_name r = tgt_name t) tbl
      then Inl (IntegrityError ''uq_target_plan_group_name'')
      else insert_targets ts (tbl @ [t]))"

text \<open>
  \<^verbatim>\<open>update_plan\<close>, statement by statement: the lookup and its 404; the eight assignments
  and \<^verbatim>\<open>db.flush()\<close>, which sends the \<^verbatim>\<open>UPDATE\<close> and fails on a limit outside the
  column's range; the delete of the plan's distributions and the pending new ones; the two
  \<^verbatim>\<open>validate_sum\<close> calls; the delete of the plan's targets and the pending new ones;
  \<^verbatim>\<open>db.commit()\<close>, which sends the pending \<^verbatim>\<open>INSERT\<close>s and commits.  The flush orders the
  rows of unrelated classes by class name, so the targets go before the distributions.  An
  exception leaves the transaction uncommitted.
\<close>

definition update_plan :: "platform \<Rightarrow> PlanPayload \<Rightarrow> User \<Rightarrow> session \<Rightarrow> (error + bool) \<times> session" where
  "update_plan pf payload current s =
     (case query_plan (working s) (user_id current) of
        None \<Rightarrow> (Inl (HTTPException 404 no_plan_detail), s)
      | Some plan0 \<Rightarrow>
          (let plan = plan0\<lparr>on_kcal := kcal (on_limits payload), on_carb := carb (on_limits payload),
                            on_pro := pro (on_limits payload), on_fat := fat (on_limits payload),
                            off_kcal := kcal (off_limits payload), off_carb := carb (off_limits payload),
                            off_pro := pro (off_limits payload), off_fat := fat (off_limits payload)\<rparr>;
               pid = plan_id plan;
               db = working s
           in if \<not> limits_fit pf payload then (Inl (OverflowError overflow_detail), s)
              else
                (let db1 = db\<lparr>plans := map (\<lambda>p. if plan_id p = pid then plan else p) (plans db)\<rparr>;
                     db2 = db1\<lparr>distributions := filter (\<lambda>d. dist_plan_id d \<noteq> pid) (distributions db1)\<rparr>;
                     db3 = db2\<lparr>distributions := distributions db2
                              @ map (dist_of_def pid True) (on_distributions payload)
                              @ map (dist_of_def pid False) (off_distributions payload)\<rparr>
                 in case validate_sum pf (on_pcts payload) of
                      Inl e \<Rightarrow> (Inl e, s\<lparr>working := db3\<rparr>)
                    | Inr _ \<Rightarrow>
                        (case validate_sum pf (off_pcts payload) of
                           Inl e \<Rightarrow> (Inl e, s\<lparr>working := db3\<rparr>)
                         | Inr _ \<Rightarrow>
                             (let db4 = db3\<lparr>targets := filter (\<lambda>t. tgt_plan_id t \<noteq> pid) (targets db3)\<rparr>
                              in case insert_targets
                                        (map (target_of_pct pid True) (on_pcts payload)
                                         @ map (target_of_pct pid False) (off_pcts payload))
                                        (targets db4) of
                                   Inl e \<Rightarrow> (Inl e, s\<lparr>working := db4\<rparr>)
                                 | Inr ts \<Rightarrow>
                                     if \<not> list_all (dist_fits pf)
                                            (on_distributions payload @ off_distributions payload)
                                     then (Inl (OverflowError overflow_detail), s\<lparr>working := db4\<rparr>)
                                     else (Inr True, commit (s\<lparr>working := db4\<lparr>targets := ts\<rparr>\<rparr>)))))))"

section \<open>Schedule update\<close>

definition both_detail :: string where
  "both_detail = ''Un giorno non pu'' @ [CHR 0xC3, CHR 0xB2] @ '' essere sia ON sia OFF''"

definition none_detail :: string where
  "none_detail = ''Devi impostare almeno un giorno ON o OFF''"

text \<open>The INSERTs of the pending rows under \<^verbatim>\<open>UniqueConstraint("user_id", "weekday")\<close>.\<close>

fun insert_day_modes :: "UserDayMode list \<Rightarrow> UserDayMode list \<Rightarrow> error + UserDayMode list" where
  "insert_day_modes [] tbl = Inr tbl"
| "insert_day_modes (m # ms) tbl =
     (if list_ex (\<lambda>r. dm_user_id r = dm_user_id m \<and> dm_weekday r = dm_weekday m) tbl
      then Inl (IntegrityError ''uq_user_day_mode'')
      else insert_day_modes ms (tbl @ [m]))"

definition put_schedule :: "SchedulePayload \<Rightarrow> User \<Rightarrow> session \<Rightarrow> (error + SchedulePayload) \<times> session" where
  "put_schedule payload current s =
     (let set_on = set (on_days payload); set_off = set (off_days payload)
      in if set_on \<inter> set_off \<noteq> {} then (Inl (HTTPException 400 both_detail), s)
         else if set_on = {} \<and> set_off = {} then (Inl (HTTPException 400 none_detail), s)
         else
           (let db = working s;
                db1 = db\<lparr>day_modes := filter (\<lambda>m. dm_user_id m \<noteq> user_id current) (day_modes db)\<rparr>;
                rows = map (\<lambda>wd. \<lparr>dm_user_id = user_id current, dm_weekday = wd, dm_is_on = True\<rparr>)
                           (sorted_list_of_set set_on)
                     @ map (\<lambda>wd. \<lparr>dm_user_id = user_id current, dm_weekday = wd, dm_is_on = False\<rparr>)
                           (sorted_list_of_set set_off)
            in case insert_day_modes rows (day_modes db1) of
                 Inl e \<Rightarrow> (Inl e, s\<lparr>working := db1\<rparr>)
               | Inr tbl \<Rightarrow>
                   (Inr \<lparr>on_days = sorted_list_of_set set_on, off_days = sorted_list_of_set set_off\<rparr>,
                    commit (s\<lparr>working := db1\<lparr>day_modes := tbl\<rparr>\<rparr>))))"

section \<open>The specification's own wording\<close>

text \<open>The window test as the specification words it: both bounds set; a normal window
  holds the minutes from start to end, a wrapping one those from start on or up to end.\<close>

definition window_matches :: "UserDistribution \<Rightarrow> int \<Rightarrow> bool" where
  "window_matches d m =
     (case (start_min d, end_min d) of
        (Some a, Some b) \<Rightarrow> (if a \<le> b then a \<le> m \<and> m \<le> b else m \<ge> a \<or> m \<le> b)
      | _ \<Rightarrow> False)"

text \<open>The default distributions as the specification lists them, each row as
  (mode, name, sort order, window start, window end).\<close>

definition default_rows :: "(bool \<times> string \<times> int \<times> int option \<times> int option) list" where
  "default_rows =
     [(True, ''pre-workout'', 0, None, None), (True, ''intra-workout'', 1, None, None),
      (True, ''post-workout'', 2, None, None), (True, ''pranzo'', 3, None, None),
      (True, ''cena'', 4, None, None),
      (False, ''colazione'', 0, None, None), (False, ''pranzo'', 1, None, None),
      (False, ''cena'', 2, None, None), (False, ''snack'', 3, None, None)]"

definition dist_row :: "UserDistribution \<Rightarrow> bool \<times> string \<times> int \<times> int option \<times> int option" where
  "dist_row d = (dist_is_on d, dist_name d, sort_order d, start_min d, end_min d)"

text \<open>\<^verbatim>\<open>ForeignKey("user_plans.id")\<close>: every distribution row belongs to a stored plan.\<close>

definition distributions_fk :: "database \<Rightarrow> bool" where
  "distributions_fk db =
     list_all (\<lambda>d. list_ex (\<lambda>p. plan_id p = dist_plan_id d) (plans db)) (distributions db)"


text \<open>A group of percentages that breaks the sum rule: an empty group (its sums are 0), or
  one whose carbohydrate, protein or fat sum, as Python adds the doubles, is further than
  0.5 from 100.\<close>

definition sum_deviates :: "platform \<Rightarrow> DistributionPct list \<Rightarrow> bool" where
  "sum_deviates pf ps \<longleftrightarrow>
     ps = []
     \<or> \<bar>float_sum pf (map pct_carb ps) - 100\<bar> > 0.5
     \<or> \<bar>float_sum pf (map pct_pro ps) - 100\<bar> > 0.5
     \<or> \<bar>float_sum pf (map pct_fat ps) - 100\<bar> > 0.5"


text \<open>The store after a whole-set replace: the plan's limits are the submitted ones, and
  the plan's distributions and targets are the submitted ones; all other rows stay.\<close>

definition replace_store :: "database \<Rightarrow> UserPlan \<Rightarrow> PlanPayload \<Rightarrow> database" where
  "replace_store db plan payload =
     db\<lparr>plans :=
          map (\<lambda>p. if plan_id p = plan_id plan
                    then plan\<lparr>on_kcal := kcal (on_limits payload), on_carb := carb (on_limits payload),
                              on_pro := pro (on_limits payload), on_fat := fat (on_limits payload),
                              off_kcal := kcal (off_limits payload), off_carb := carb (off_limits payload),
                              off_pro := pro (off_limits payload), off_fat := fat (off_limits payload)\<rparr>
                    else p) (plans db),
        distributions :=
          filter (\<lambda>d. dist_plan_id d \<noteq> plan_id plan) (distributions db)
          @ map (dist_of_def (plan_id plan) True) (on_distributions payload)
          @ map (dist_of_def (plan_id plan) False) (off_distributions payload),
        targets :=
          filter (\<lambda>t. tgt_plan_id t \<noteq> plan_id plan) (targets db)
          @ map (target_of_pct (plan_id plan) True) (on_pcts payload)
          @ map (target_of_pct (plan_id plan) False) (off_pcts payload)\<rparr>"

text \<open>The columns of \<^verbatim>\<open>uq_target_plan_group_name\<close>.\<close>

definition target_key :: "DistributionTarget \<Rightarrow> int \<times> bool \<times> string" where
  "target_key t = (tgt_plan_id t, tgt_is_on t, tgt_name t)"

section \<open>Sample data\<close>

definition world_at :: "int \<Rightarrow> int \<Rightarrow> int \<Rightarrow> world" where
  "world_at wd h m =
     \<lparr>known_zone = (\<lambda>k. k = ''Europe/Rome''),
      zone_error = (\<lambda>k. if take 1 k = ''/''
                         then ValueError (''ZoneInfo keys may not be absolute paths, got: '' @ k)
                         else ZoneInfoNotFoundError (''No time zone found with key '' @ k)),
      now = (\<lambda>k. \<lparr>weekday = wd, hour = h, minute = m, d0_utc = 0, d1_utc = 1440\<rparr>)\<rparr>"

definition user1 :: User where
  "user1 = \<lparr>user_id = 1, timezone = None\<rparr>"

definition plan1 :: UserPlan where
  "plan1 = \<lparr>plan_id = 1, plan_user_id = 1,
            on_kcal = 2600, on_carb = 360, on_pro = 194, on_fat = 45,
            off_kcal = 2200, off_carb = 200, off_pro = 194, off_fat = 55\<rparr>"

definition night :: UserDistribution where
  "night = \<lparr>dist_plan_id = 1, dist_is_on = False, dist_name = ''notte'', sort_order = 1,
            start_min = Some 1320, end_min = Some 60\<rparr>"

definition late :: UserDistribution where
  "late = \<lparr>dist_plan_id = 1, dist_is_on = False, dist_name = ''tardi'', sort_order = 0,
           start_min = Some 1400, end_min = Some 1439\<rparr>"

definition nowin :: UserDistribution where
  "nowin = \<lparr>dist_plan_id = 1, dist_is_on = False, dist_name = ''snack'', sort_order = -1,
            start_min = Some 0, end_min = None\<rparr>"

definition windows_db :: database where
  "windows_db = \<lparr>plans = [plan1], distributions = [night, late, nowin], targets = [],
                  day_modes = [], meals = [], meal_items = []\<rparr>"

definition mars_user :: User where
  "mars_user = \<lparr>user_id = 1, timezone = Some ''Mars/Phobos''\<rparr>"

definition week_db :: database where
  "week_db = windows_db\<lparr>day_modes := [\<lparr>dm_user_id = 1, dm_weekday = 0, dm_is_on = True\<rparr>]\<rparr>"

definition empty_db :: database where
  "empty_db = \<lparr>plans = [], distributions = [], targets = [], day_modes = [], meals = [], meal_items = []\<rparr>"

definition sample_payload :: PlanPayload where
  "sample_payload =
     \<lparr>on_distributions = [\<lparr>def_name = ''pranzo'', def_sort_order = 0, def_start_min = Some 720, def_end_min = Some 840\<rparr>],
      off_distributions = [\<lparr>def_name = ''cena'', def_sort_order = 0, def_start_min = None, def_end_min = None\<rparr>],
      on_limits = \<lparr>kcal = 2500, carb = 300, pro = 180, fat = 60\<rparr>,
      off_limits = \<lparr>kcal = 2000, carb = 180, pro = 180, fat = 60\<rparr>,
      on_pcts = [\<lparr>pct_name = ''pranzo'', pct_carb = 100, pct_pro = 100, pct_fat = 100\<rparr>],
      off_pcts = [\<lparr>pct_name = ''cena'', pct_carb = 100, pct_pro = 100, pct_fat = 100\<rparr>]\<rparr>"


text \<open>A store with 64-bit integers.  The sample percentages are small whole numbers, on
  which Python's sum of doubles is the exact sum.\<close>

definition sample_platform :: platform where
  "sample_platform = \<lparr>integer_ok = (\<lambda>i. - (2 ^ 63) \<le> i \<and> i < 2 ^ 63), float_sum = sum_list\<rparr>"

definition no_tzdata :: world where
  "no_tzdata = (world_at 2 8 20)\<lparr>known_zone := (\<lambda>k. False)\<rparr>"

definition passwd_user :: User where
  "passwd_user = \<lparr>user_id = 1, timezone = Some ''/etc/passwd''\<rparr>"

definition schedule_db :: database where
  "schedule_db = windows_db\<lparr>day_modes := [\<lparr>dm_user_id = 1, dm_weekday = 0, dm_is_on = True\<rparr>,
                                           \<lparr>dm_user_id = 2, dm_weekday = 2, dm_is_on = True\<rparr>]\<rparr>"


definition big_payload :: PlanPayload where
  "big_payload = sample_payload\<lparr>on_limits := \<lparr>kcal = 2 ^ 63, carb = 300, pro = 180, fat = 60\<rparr>,
                               off_pcts := []\<rparr>"

definition dup_payload :: PlanPayload where
  "dup_payload = sample_payload\<lparr>on_pcts := [\<lparr>pct_name = ''pranzo'', pct_carb = 50, pct_pro = 50, pct_fat = 50\<rparr>,
                                          \<lparr>pct_name = ''pranzo'', pct_carb = 50, pct_pro = 50, pct_fat = 50\<rparr>]\<rparr>"

definition bad_payload :: PlanPayload where
  "bad_payload = sample_payload\<lparr>on_pcts := [\<lparr>pct_name = ''pranzo'', pct_carb = 90, pct_pro = 100, pct_fat = 100\<rparr>]\<rparr>"

section \<open>Slot resolution: first matching window\<close>

lemma auto_slot_loop_find:
  "auto_slot_loop ds m = map_option dist_name (find (\<lambda>d. window_matches d m) ds)"
  by (induction ds) (auto simp: window_matches_def split: option.splits)

lemma sorted_query_distributions: "sorted (map sort_order (query_distributions db pid b))"
  by (simp add: query_distributions_def)

lemma gtp_result:
  assumes "get_today_profile_and_distributions w current s = (Inr (b, dists, limits, tz, t), s1)"
  shows "tz = str_or (timezone current) ''Europe/Rome''" and "known_zone w tz" and "t = now w tz"
    and "b = (case query_day_mode (working s) (user_id current) (weekday t) of
                None \<Rightarrow> False | Some m \<Rightarrow> dm_is_on m)"
    and "s1 = (case query_plan (working s) (user_id current) of
                 Some p \<Rightarrow> s | None \<Rightarrow> snd (bootstrap_plan (user_id current) s))"
    and "sorted (map sort_order dists)"
  using assms
  by (auto simp: get_today_profile_and_distributions_def ZoneInfo_def Let_def sorted_query_distributions
      split: if_splits option.splits prod.splits)

lemma gtp_windows:
  "get_today_profile_and_distributions (world_at 2 h m) user1 (get_db windows_db) =
     (Inr (False, [nowin, late, night], \<lparr>kcal = 2200, carb = 200, pro = 194, fat = 55\<rparr>,
           ''Europe/Rome'', \<lparr>weekday = 2, hour = h, minute = m, d0_utc = 0, d1_utc = 1440\<rparr>),
      get_db windows_db)"
  by (simp add: get_today_profile_and_distributions_def ZoneInfo_def str_or_def world_at_def user1_def
      query_day_mode_def query_plan_def windows_db_def get_db_def plan1_def query_distributions_def
      plan_limits_def night_def late_def nowin_def)

lemma wrap_window_examples:
  "window_matches night 1439" "window_matches night 30" "\<not> window_matches night 700"
  by (simp_all add: window_matches_def night_def)

text \<open>
  C1.  Whenever the day's profile resolves, \<^const>\<open>auto_slot_for_now\<close> answers with the name of
  the first distribution, in the order of the query (ascending \<open>sort_order\<close>), whose window
  matches the minute of the day \<open>hour * 60 + minute\<close>; a distribution lacking a bound never
  matches; with no match the answer is the error.  The window test is
  \<^const>\<open>window_matches\<close>, the specification's wording.
\<close>

theorem slot_resolution_first_match:
  assumes "get_today_profile_and_distributions w current s = (Inr (b, dists, limits, tz, t), s1)"
  shows "auto_slot_for_now w current s =
           ((case find (\<lambda>d. window_matches d (hour t * 60 + minute t)) dists of
               Some d \<Rightarrow> Inr (dist_name d)
             | None \<Rightarrow> Inl (HTTPException 400 no_slot_detail)), s1)
         \<and> sorted (map sort_order dists)"
  using assms gtp_result(6)[OF assms]
  by (simp add: auto_slot_for_now_def auto_slot_loop_find split: option.splits)

text \<open>At 23:59 both [1320, 60] and [1400, 1439] match and the lower \<open>sort_order\<close> wins; at
  00:30 only the wrapping window matches; at 11:40 (minute 700) none does.\<close>

theorem slot_resolution_first_match_witness:
  "auto_slot_for_now (world_at 2 23 59) user1 (get_db windows_db) = (Inr ''tardi'', get_db windows_db)
   \<and> auto_slot_for_now (world_at 2 0 30) user1 (get_db windows_db) = (Inr ''notte'', get_db windows_db)
   \<and> auto_slot_for_now (world_at 2 11 40) user1 (get_db windows_db)
       = (Inl (HTTPException 400 no_slot_detail), get_db windows_db)"
  using slot_resolution_first_match [OF gtp_windows [of 23 59]]
        slot_resolution_first_match [OF gtp_windows [of 0 30]]
        slot_resolution_first_match [OF gtp_windows [of 11 40]]
  by (simp add: window_matches_def night_def late_def nowin_def)

section \<open>Sessions and the day's profile\<close>

lemma bootstrap_plan_session:
  "snd (bootstrap_plan uid s) = get_db (working (snd (bootstrap_plan uid s)))"
  by (simp add: bootstrap_plan_def Let_def commit_def get_db_def)

lemma bootstrap_plan_committed:
  "committed (snd (bootstrap_plan uid s)) = working (snd (bootstrap_plan uid s))"
  by (simp add: bootstrap_plan_def Let_def commit_def)

lemma close_get_db: "close (get_db db) = db"
  by (simp add: close_def get_db_def)

lemma bootstrap_plan_tables:
  "targets (working (snd (bootstrap_plan uid s))) = targets (working s)"
  "day_modes (working (snd (bootstrap_plan uid s))) = day_modes (working s)"
  "meals (working (snd (bootstrap_plan uid s))) = meals (working s)"
  "meal_items (working (snd (bootstrap_plan uid s))) = meal_items (working s)"
  by (simp_all add: bootstrap_plan_def Let_def commit_def)

lemma gtp_session:
  assumes "get_today_profile_and_distributions w current (get_db db) = (r, s1)"
  shows "s1 = get_db (close s1)"
    and "targets (close s1) = targets db" and "day_modes (close s1) = day_modes db"
    and "meals (close s1) = meals db" and "meal_items (close s1) = meal_items db"
proof -
  have "s1 = get_db db \<or> s1 = snd (bootstrap_plan (user_id current) (get_db db))"
    using assms
    by (auto simp: get_today_profile_and_distributions_def Let_def
        split: sum.splits option.splits prod.splits)
  then have "s1 = get_db (working s1) \<and> committed s1 = working s1
      \<and> targets (working s1) = targets db \<and> day_modes (working s1) = day_modes db
      \<and> meals (working s1) = meals db \<and> meal_items (working s1) = meal_items db"
  proof
    assume "s1 = get_db db"
    then show ?thesis by (simp add: get_db_def)
  next
    assume b: "s1 = snd (bootstrap_plan (user_id current) (get_db db))"
    have "working (get_db db) = db" by (simp add: get_db_def)
    with b bootstrap_plan_session [of "user_id current" "get_db db"]
      bootstrap_plan_committed [of "user_id current" "get_db db"]
      bootstrap_plan_tables [of "user_id current" "get_db db"]
    show ?thesis by simp
  qed
  then show "s1 = get_db (close s1)"
    and "targets (close s1) = targets db" and "day_modes (close s1) = day_modes db"
    and "meals (close s1) = meals db" and "meal_items (close s1) = meal_items db"
    by (simp_all add: close_def)
qed

lemma request_gtp:
  assumes "request (get_today_profile_and_distributions w current) db = (r, db1)"
  shows "get_today_profile_and_distributions w current (get_db db) = (r, get_db db1)"
proof -
  obtain s1 where g: "get_today_profile_and_distributions w current (get_db db) = (r, s1)"
    and c: "close s1 = db1"
    using assms by (auto simp: request_def split: prod.splits)
  from gtp_session(1)[OF g] c g show ?thesis by simp
qed

lemma gtp_total:
  assumes "known_zone w (str_or (timezone current) ''Europe/Rome'')"
  shows "\<exists>dists limits s1. get_today_profile_and_distributions w current s =
     (Inr ((case query_day_mode (working s) (user_id current)
                   (weekday (now w (str_or (timezone current) ''Europe/Rome''))) of
              None \<Rightarrow> False | Some m \<Rightarrow> dm_is_on m),
           dists, limits, str_or (timezone current) ''Europe/Rome'',
           now w (str_or (timezone current) ''Europe/Rome'')), s1)"
  using assms
  by (simp add: get_today_profile_and_distributions_def ZoneInfo_def Let_def split: prod.splits)

section \<open>Slot resolution: no match\<close>

text \<open>
  C4.  When no distribution of the day's profile has a window holding the minute of the
  day, \<^const>\<open>auto_slot_for_now\<close> raises the HTTP 400 error with the instruction to define the
  windows in the settings, and no slot is returned; \<^const>\<open>create_meal\<close> without a slot (absent
  or empty) fails with the same error, and the stored meals and meal items are as before.
\<close>

theorem no_match_is_an_error:
  assumes "request (get_today_profile_and_distributions w current) db = (Inr (b, dists, limits, tz, t), db1)"
    and "\<forall>d \<in> set dists. \<not> window_matches d (hour t * 60 + minute t)"
    and "in_slot meal = None \<or> in_slot meal = Some []"
  shows "request (auto_slot_for_now w current) db = (Inl (HTTPException 400 no_slot_detail), db1)
       \<and> request (create_meal w meal current) db = (Inl (HTTPException 400 no_slot_detail), db1)
       \<and> meals db1 = meals db \<and> meal_items db1 = meal_items db"
proof -
  have g: "get_today_profile_and_distributions w current (get_db db) = (Inr (b, dists, limits, tz, t), get_db db1)"
    by (rule request_gtp [OF assms(1)])
  have "find (\<lambda>d. window_matches d (hour t * 60 + minute t)) dists = None"
    using assms(2) by (simp add: find_None_iff)
  then have "auto_slot_loop dists (hour t * 60 + minute t) = None"
    by (simp add: auto_slot_loop_find)
  with g have a: "auto_slot_for_now w current (get_db db) = (Inl (HTTPException 400 no_slot_detail), get_db db1)"
    by (simp add: auto_slot_for_now_def)
  have e: "str_or (in_slot meal) [] = []"
    using assms(3) by (auto simp: str_or_def)
  have c: "create_meal w meal current (get_db db) = (Inl (HTTPException 400 no_slot_detail), get_db db1)"
    by (simp add: create_meal_def create_meal_body_def e a)
  have cl: "close (get_db db1) = db1" by (simp add: close_def get_db_def)
  from gtp_session(4,5)[OF g] a c cl show ?thesis
    by (simp add: request_def)
qed

text \<open>
  Minute 500 (08:20) lies in none of the sample windows.
\<close>

theorem no_match_is_an_error_witness:
  "request (auto_slot_for_now (world_at 2 8 20) user1) windows_db
     = (Inl (HTTPException 400 no_slot_detail), windows_db)
   \<and> request (create_meal (world_at 2 8 20) \<lparr>in_when = 7, in_slot = None, in_items = []\<rparr> user1) windows_db
     = (Inl (HTTPException 400 no_slot_detail), windows_db)"
proof -
  have g: "request (get_today_profile_and_distributions (world_at 2 8 20) user1) windows_db =
     (Inr (False, [nowin, late, night], \<lparr>kcal = 2200, carb = 200, pro = 194, fat = 55\<rparr>,
           ''Europe/Rome'', \<lparr>weekday = 2, hour = 8, minute = 20, d0_utc = 0, d1_utc = 1440\<rparr>),
      windows_db)"
    by (simp add: request_def gtp_windows close_get_db)
  have n: "\<forall>d \<in> set [nowin, late, night].
      \<not> window_matches d (hour \<lparr>weekday = 2, hour = 8, minute = 20, d0_utc = 0, d1_utc = 1440\<rparr> * 60
          + minute \<lparr>weekday = 2, hour = 8, minute = 20, d0_utc = 0, d1_utc = 1440\<rparr>)"
    by (simp add: window_matches_def night_def late_def nowin_def)
  show ?thesis
    using no_match_is_an_error [OF g n, of "\<lparr>in_when = 7, in_slot = None, in_items = []\<rparr>"]
    by simp
qed

section \<open>Schedule update: rejected requests\<close>

text \<open>
  C8.  A schedule update naming a weekday in both lists, or naming no day at all, is
  answered with HTTP 400 before the session is touched: the store after the request is the
  store before it, day modes included.
\<close>

theorem conflicting_schedule_rejected:
  assumes "set (on_days payload) \<inter> set (off_days payload) \<noteq> {}
           \<or> (on_days payload = [] \<and> off_days payload = [])"
  shows "request (put_schedule payload current) db =
           (Inl (HTTPException 400
                  (if set (on_days payload) \<inter> set (off_days payload) \<noteq> {} then both_detail
                   else none_detail)), db)"
  using assms
  by (auto simp: request_def put_schedule_def Let_def close_get_db)

text \<open>
  Weekday 2 in both lists; and two empty lists.
\<close>

theorem conflicting_schedule_rejected_witness:
  "request (put_schedule \<lparr>on_days = [0, 2], off_days = [2, 3]\<rparr> user1) week_db
     = (Inl (HTTPException 400 both_detail), week_db)
   \<and> request (put_schedule \<lparr>on_days = [], off_days = []\<rparr> user1) week_db
     = (Inl (HTTPException 400 none_detail), week_db)"
  using conflicting_schedule_rejected [of "\<lparr>on_days = [0, 2], off_days = [2, 3]\<rparr>" user1 week_db]
        conflicting_schedule_rejected [of "\<lparr>on_days = [], off_days = []\<rparr>" user1 week_db]
  by simp

section \<open>Plan bootstrap\<close>

lemma find_snoc_None: "find P xs = None \<Longrightarrow> find P (xs @ [x]) = (if P x then Some x else None)"
  by (induction xs) (auto split: if_splits)

lemma bootstrap_plan_query:
  assumes "query_plan (working s) uid = None"
  shows "query_plan (working (snd (bootstrap_plan uid s))) uid = Some (fst (bootstrap_plan uid s))"
  using assms by (simp add: bootstrap_plan_def Let_def query_plan_def commit_def find_snoc_None)

lemma fold_max_ge: "(a::int) \<le> fold max xs a" "x \<in> set xs \<Longrightarrow> x \<le> fold max xs a"
proof -
  have "a \<le> fold max xs a \<and> (\<forall>x \<in> set xs. x \<le> fold max xs a)"
  proof (induction xs arbitrary: a)
    case Nil
    show ?case by simp
  next
    case (Cons y ys)
    have "max y a \<le> fold max ys (max y a)" and "\<forall>x \<in> set ys. x \<le> fold max ys (max y a)"
      using Cons.IH [of "max y a"] by simp_all
    then show ?case by auto
  qed
  then show "a \<le> fold max xs a" and "x \<in> set xs \<Longrightarrow> x \<le> fold max xs a" by simp_all
qed

lemma next_id_fresh: "next_id ids \<notin> set ids"
  using fold_max_ge(2) [of "next_id ids" ids 0] by (auto simp: next_id_def)

lemma fk_filter_fresh:
  assumes "distributions_fk db"
  shows "filter (\<lambda>d. dist_plan_id d = next_id (map plan_id (plans db))) (distributions db) = []"
proof -
  have "dist_plan_id d \<noteq> next_id (map plan_id (plans db))" if "d \<in> set (distributions db)" for d
  proof -
    have "\<exists>p \<in> set (plans db). plan_id p = dist_plan_id d"
      using assms that by (simp add: distributions_fk_def list_all_iff list_ex_iff)
    then obtain p where "p \<in> set (plans db)" and "plan_id p = dist_plan_id d"
      by blast
    then have "dist_plan_id d \<in> set (map plan_id (plans db))" by force
    with next_id_fresh [of "map plan_id (plans db)"] show ?thesis by metis
  qed
  then show ?thesis by (simp add: filter_empty_conv)
qed

lemma bootstrap_plan_value:
  "fst (bootstrap_plan uid s) =
     \<lparr>plan_id = next_id (map plan_id (plans (working s))), plan_user_id = uid,
      on_kcal = 2600, on_carb = 360, on_pro = 194, on_fat = 45,
      off_kcal = 2200, off_carb = 200, off_pro = 194, off_fat = 55\<rparr>"
  by (simp add: bootstrap_plan_def Let_def)

lemma bootstrap_plan_store:
  "plans (working (snd (bootstrap_plan uid s))) = plans (working s) @ [fst (bootstrap_plan uid s)]"
  "distributions (working (snd (bootstrap_plan uid s))) = distributions (working s)
      @ map (new_distribution (plan_id (fst (bootstrap_plan uid s))) True) (enumerate 0 on_names)
      @ map (new_distribution (plan_id (fst (bootstrap_plan uid s))) False) (enumerate 0 off_names)"
  by (simp_all add: bootstrap_plan_def Let_def commit_def)

lemma new_rows:
  "map dist_row (map (new_distribution pid True) (enumerate 0 on_names)
      @ map (new_distribution pid False) (enumerate 0 off_names)) = default_rows"
  by (simp add: on_names_def off_names_def new_distribution_def dist_row_def default_rows_def)

lemma new_rows_pid:
  "filter (\<lambda>d. dist_plan_id d = pid) (map (new_distribution pid b) xs) = map (new_distribution pid b) xs"
  by (induction xs) (simp_all add: new_distribution_def)

lemma new_rows_sorted:
  "sort_key (\<lambda>d. (\<not> dist_is_on d, sort_order d))
     (map (new_distribution pid True) (enumerate 0 on_names)
      @ map (new_distribution pid False) (enumerate 0 off_names))
   = map (new_distribution pid True) (enumerate 0 on_names)
      @ map (new_distribution pid False) (enumerate 0 off_names)"
  by (rule sort_key_id_if_sorted)
     (simp add: on_names_def off_names_def new_distribution_def less_eq_prod_def)

lemma new_rows_on:
  "filter dist_is_on (map (new_distribution pid b) xs) = (if b then map (new_distribution pid b) xs else [])"
  "filter (\<lambda>d. \<not> dist_is_on d) (map (new_distribution pid b) xs)
     = (if b then [] else map (new_distribution pid b) xs)"
  by (induction xs) (simp_all add: new_distribution_def)

lemma new_rows_out:
  "map dist_out (map (new_distribution pid True) (enumerate 0 on_names)) =
     map (\<lambda>(n, i). \<lparr>def_name = n, def_sort_order = i, def_start_min = None, def_end_min = None\<rparr>)
       [(''pre-workout'', 0), (''intra-workout'', 1), (''post-workout'', 2), (''pranzo'', 3), (''cena'', 4)]"
  "map dist_out (map (new_distribution pid False) (enumerate 0 off_names)) =
     map (\<lambda>(n, i). \<lparr>def_name = n, def_sort_order = i, def_start_min = None, def_end_min = None\<rparr>)
       [(''colazione'', 0), (''pranzo'', 1), (''cena'', 2), (''snack'', 3)]"
  by (simp_all add: on_names_def off_names_def new_distribution_def dist_out_def)

text \<open>
  C6.  Reading the plan twice: the second \<^verbatim>\<open>GET /plan\<close> returns what the first returned and
  leaves the store the first left, so nothing is bootstrapped a second time; the same holds
  for the day's profile under an unchanged clock.
\<close>

theorem get_or_create_idempotent:
  "request (get_plan current) (snd (request (get_plan current) db)) = request (get_plan current) db
   \<and> request (get_today_profile_and_distributions w current)
        (snd (request (get_today_profile_and_distributions w current) db))
      = request (get_today_profile_and_distributions w current) db"
proof (cases "query_plan db (user_id current)")
  case (Some p)
  have w: "working (get_db db) = db" by (simp add: get_db_def)
  have 1: "snd (request (get_plan current) db) = db"
    using Some by (simp add: request_def get_plan_def Let_def w close_get_db)
  have 2: "snd (request (get_today_profile_and_distributions w current) db) = db"
    using Some
    by (simp add: request_def get_today_profile_and_distributions_def Let_def w close_get_db
        split: sum.splits)
  show ?thesis by (simp add: 1 2)
next
  case None
  define s1 where "s1 = snd (bootstrap_plan (user_id current) (get_db db))"
  define plan where "plan = fst (bootstrap_plan (user_id current) (get_db db))"
  define db1 where "db1 = working s1"
  have w: "working (get_db db) = db" by (simp add: get_db_def)
  have b: "bootstrap_plan (user_id current) (get_db db) = (plan, s1)"
    by (simp add: s1_def plan_def)
  have s1: "s1 = get_db db1"
    unfolding db1_def s1_def by (rule bootstrap_plan_session)
  have q: "query_plan db1 (user_id current) = Some plan"
    unfolding db1_def s1_def plan_def
    by (rule bootstrap_plan_query) (simp add: w None)
  have w1: "working (get_db db1) = db1" by (simp add: get_db_def)
  have g1: "snd (request (get_plan current) db) = db1"
    using None by (simp add: request_def get_plan_def Let_def w b s1 close_get_db)
  have g2: "request (get_plan current) db1 = request (get_plan current) db"
    using None q by (simp add: request_def get_plan_def Let_def w w1 b s1 close_get_db)
  have t1: "request (get_today_profile_and_distributions w current)
        (snd (request (get_today_profile_and_distributions w current) db))
      = request (get_today_profile_and_distributions w current) db"
  proof (cases "known_zone w (str_or (timezone current) ''Europe/Rome'')")
    case False
    then show ?thesis
      by (simp add: request_def get_today_profile_and_distributions_def ZoneInfo_def close_get_db)
  next
    case True
    have h1: "snd (request (get_today_profile_and_distributions w current) db) = db1"
      using None True
      by (simp add: request_def get_today_profile_and_distributions_def ZoneInfo_def Let_def w b s1
          close_get_db)
    have d: "day_modes db1 = day_modes db"
      using bootstrap_plan_tables(2) [of "user_id current" "get_db db"]
      by (simp add: db1_def s1_def w)
    show ?thesis
      unfolding h1 using None q True d
      by (simp add: request_def get_today_profile_and_distributions_def ZoneInfo_def Let_def w w1 b s1
          close_get_db query_day_mode_def)
  qed
  show ?thesis using g1 g2 t1 by simp
qed

text \<open>
  On the empty store the two reads leave one plan and nine distributions.
\<close>

theorem get_or_create_idempotent_witness:
  "request (get_plan user1) (snd (request (get_plan user1) empty_db)) = request (get_plan user1) empty_db
   \<and> length (plans (snd (request (get_plan user1) (snd (request (get_plan user1) empty_db))))) = 1
   \<and> length (distributions (snd (request (get_plan user1) (snd (request (get_plan user1) empty_db))))) = 9"
proof -
  have "snd (request (get_plan user1) empty_db)
      = working (snd (bootstrap_plan (user_id user1) (get_db empty_db)))"
    by (simp add: request_def get_plan_def Let_def split_beta close_def bootstrap_plan_committed
        query_plan_def empty_db_def get_db_def)
  then have "length (plans (snd (request (get_plan user1) empty_db))) = 1"
    and "length (distributions (snd (request (get_plan user1) empty_db))) = 9"
    by (simp_all add: bootstrap_plan_store get_db_def empty_db_def on_names_def off_names_def)
  with get_or_create_idempotent [of user1 empty_db "world_at 2 8 20"] show ?thesis
    by simp
qed

text \<open>
  C5, as the code has it.  For a user without a plan, \<^verbatim>\<open>GET /plan\<close> adds one plan with the
  default ON and OFF limits and, in the same commit, nine distribution rows for it: the
  five ON and the four OFF names with \<open>sort_order\<close> their list index and no window.  The
  plan's distributions are exactly these rows (no row of the store refers to a plan that
  is not stored), and the answer already shows them.  The day's profile, once the
  timezone resolves, leaves the same store.  \<^verbatim>\<open>PUT /plan\<close> is not among the operations that
  bootstrap.
\<close>

theorem bootstrap_on_first_read:
  assumes "query_plan db (user_id current) = None" and "distributions_fk db"
  shows "\<exists>out plan rows db1.
      request (get_plan current) db = (Inr out, db1)
    \<and> db1 = db\<lparr>plans := plans db @ [plan], distributions := distributions db @ rows\<rparr>
    \<and> map dist_row rows = default_rows
    \<and> query_plan db1 (user_id current) = Some plan
    \<and> plan_limits plan True = \<lparr>kcal = 2600, carb = 360, pro = 194, fat = 45\<rparr>
    \<and> plan_limits plan False = \<lparr>kcal = 2200, carb = 200, pro = 194, fat = 55\<rparr>
    \<and> filter (\<lambda>d. dist_plan_id d = plan_id plan) (distributions db1) = rows
    \<and> on_limits out = \<lparr>kcal = 2600, carb = 360, pro = 194, fat = 45\<rparr>
    \<and> off_limits out = \<lparr>kcal = 2200, carb = 200, pro = 194, fat = 55\<rparr>
    \<and> on_distributions out =
        map (\<lambda>(n, i). \<lparr>def_name = n, def_sort_order = i, def_start_min = None, def_end_min = None\<rparr>)
          [(''pre-workout'', 0), (''intra-workout'', 1), (''post-workout'', 2), (''pranzo'', 3), (''cena'', 4)]
    \<and> off_distributions out =
        map (\<lambda>(n, i). \<lparr>def_name = n, def_sort_order = i, def_start_min = None, def_end_min = None\<rparr>)
          [(''colazione'', 0), (''pranzo'', 1), (''cena'', 2), (''snack'', 3)]
    \<and> (known_zone w (str_or (timezone current) ''Europe/Rome'') \<longrightarrow>
         snd (request (get_today_profile_and_distributions w current) db) = db1)"
proof -
  define s1 where "s1 = snd (bootstrap_plan (user_id current) (get_db db))"
  define plan where "plan = fst (bootstrap_plan (user_id current) (get_db db))"
  define db1 where "db1 = working s1"
  define rows where "rows = map (new_distribution (plan_id plan) True) (enumerate 0 on_names)
      @ map (new_distribution (plan_id plan) False) (enumerate 0 off_names)"
  have w: "working (get_db db) = db" by (simp add: get_db_def)
  have b: "bootstrap_plan (user_id current) (get_db db) = (plan, s1)"
    by (simp add: s1_def plan_def)
  have s1: "s1 = get_db db1"
    unfolding db1_def s1_def by (rule bootstrap_plan_session)
  have q: "query_plan db1 (user_id current) = Some plan"
    unfolding db1_def s1_def plan_def
    by (rule bootstrap_plan_query) (simp add: w assms(1))
  have pv: "plan = \<lparr>plan_id = next_id (map plan_id (plans db)), plan_user_id = user_id current,
      on_kcal = 2600, on_carb = 360, on_pro = 194, on_fat = 45,
      off_kcal = 2200, off_carb = 200, off_pro = 194, off_fat = 55\<rparr>"
    unfolding plan_def by (simp add: bootstrap_plan_value w)
  have pid: "plan_id plan = next_id (map plan_id (plans db))"
    by (simp add: pv)
  have ds: "distributions db1 = distributions db @ rows"
    unfolding db1_def s1_def rows_def plan_def by (simp add: bootstrap_plan_store w)
  have f: "filter (\<lambda>d. dist_plan_id d = plan_id plan) (distributions db1) = rows"
    unfolding ds rows_def using fk_filter_fresh [OF assms(2)] by (simp add: pid new_rows_pid)
  have w1: "working (get_db db1) = db1" by (simp add: get_db_def)
  define out where "out =
     \<lparr>on_distributions = map dist_out (map (new_distribution (plan_id plan) True) (enumerate 0 on_names)),
      off_distributions = map dist_out (map (new_distribution (plan_id plan) False) (enumerate 0 off_names)),
      on_limits = plan_limits plan True, off_limits = plan_limits plan False,
      on_pcts = pcts_out ''ON'' (t_map_of (filter (\<lambda>t. tgt_plan_id t = plan_id plan) (targets db1))),
      off_pcts = pcts_out ''OFF'' (t_map_of (filter (\<lambda>t. tgt_plan_id t = plan_id plan) (targets db1)))\<rparr>"
  have "get_plan current (get_db db) = (Inr out, get_db db1)"
    using assms(1) f
    by (simp add: get_plan_def Let_def w w1 b s1 rows_def new_rows_sorted new_rows_on out_def)
  then have g: "request (get_plan current) db = (Inr out, db1)"
    by (simp add: request_def close_get_db)
  have l: "plan_limits plan True = \<lparr>kcal = 2600, carb = 360, pro = 194, fat = 45\<rparr>"
    "plan_limits plan False = \<lparr>kcal = 2200, carb = 200, pro = 194, fat = 55\<rparr>"
    by (simp_all add: plan_limits_def pv)
  have r: "map dist_row rows = default_rows"
    unfolding rows_def by (rule new_rows)
  have e: "db1 = db\<lparr>plans := plans db @ [plan], distributions := distributions db @ rows\<rparr>"
    unfolding db1_def s1_def rows_def plan_def
    by (simp add: bootstrap_plan_def Let_def commit_def w)
  have t: "known_zone w (str_or (timezone current) ''Europe/Rome'') \<longrightarrow>
         snd (request (get_today_profile_and_distributions w current) db) = db1"
    using assms(1)
    by (simp add: request_def get_today_profile_and_distributions_def ZoneInfo_def Let_def w b s1
          close_get_db)
  show ?thesis
  proof (intro exI conjI)
    show "request (get_plan current) db = (Inr out, db1)" by (rule g)
    show "db1 = db\<lparr>plans := plans db @ [plan], distributions := distributions db @ rows\<rparr>" by (rule e)
    show "map dist_row rows = default_rows" by (rule r)
    show "query_plan db1 (user_id current) = Some plan" by (rule q)
    show "plan_limits plan True = \<lparr>kcal = 2600, carb = 360, pro = 194, fat = 45\<rparr>" by (rule l(1))
    show "plan_limits plan False = \<lparr>kcal = 2200, carb = 200, pro = 194, fat = 55\<rparr>" by (rule l(2))
    show "filter (\<lambda>d. dist_plan_id d = plan_id plan) (distributions db1) = rows" by (rule f)
    show "on_limits out = \<lparr>kcal = 2600, carb = 360, pro = 194, fat = 45\<rparr>"
      by (simp add: out_def l)
    show "off_limits out = \<lparr>kcal = 2200, carb = 200, pro = 194, fat = 55\<rparr>"
      by (simp add: out_def l)
    show "on_distributions out =
        map (\<lambda>(n, i). \<lparr>def_name = n, def_sort_order = i, def_start_min = None, def_end_min = None\<rparr>)
          [(''pre-workout'', 0), (''intra-workout'', 1), (''post-workout'', 2), (''pranzo'', 3), (''cena'', 4)]"
      unfolding out_def using new_rows_out(1) [of "plan_id plan"] by simp
    show "off_distributions out =
        map (\<lambda>(n, i). \<lparr>def_name = n, def_sort_order = i, def_start_min = None, def_end_min = None\<rparr>)
          [(''colazione'', 0), (''pranzo'', 1), (''cena'', 2), (''snack'', 3)]"
      unfolding out_def using new_rows_out(2) [of "plan_id plan"] by simp
    show "known_zone w (str_or (timezone current) ''Europe/Rome'') \<longrightarrow>
         snd (request (get_today_profile_and_distributions w current) db) = db1" by (rule t)
  qed
qed

text \<open>
  The empty store and a user without a timezone.
\<close>

theorem bootstrap_on_first_read_witness:
  "\<exists>out plan db1.
      request (get_plan user1) empty_db = (Inr out, db1)
    \<and> plans db1 = [plan]
    \<and> plan_limits plan True = \<lparr>kcal = 2600, carb = 360, pro = 194, fat = 45\<rparr>
    \<and> plan_limits plan False = \<lparr>kcal = 2200, carb = 200, pro = 194, fat = 55\<rparr>
    \<and> map dist_row (distributions db1) = default_rows
    \<and> snd (request (get_today_profile_and_distributions (world_at 2 8 20) user1) empty_db) = db1"
proof -
  have q: "query_plan empty_db (user_id user1) = None"
    by (simp add: query_plan_def empty_db_def)
  have k: "distributions_fk empty_db"
    by (simp add: distributions_fk_def empty_db_def)
  have z: "known_zone (world_at 2 8 20) (str_or (timezone user1) ''Europe/Rome'')"
    by (simp add: world_at_def user1_def str_or_def)
  obtain out plan rows db1 where
    1: "request (get_plan user1) empty_db = (Inr out, db1)" and
    2: "db1 = empty_db\<lparr>plans := plans empty_db @ [plan], distributions := distributions empty_db @ rows\<rparr>" and
    3: "plan_limits plan True = \<lparr>kcal = 2600, carb = 360, pro = 194, fat = 45\<rparr>" and
    4: "plan_limits plan False = \<lparr>kcal = 2200, carb = 200, pro = 194, fat = 55\<rparr>" and
    5: "map dist_row rows = default_rows" and
    6: "snd (request (get_today_profile_and_distributions (world_at 2 8 20) user1) empty_db) = db1"
    using bootstrap_on_first_read [OF q k, of "world_at 2 8 20"] z by blast
  from 2 have "plans db1 = [plan]" and "distributions db1 = rows"
    by (simp_all add: empty_db_def)
  with 1 3 4 5 6 show ?thesis by auto
qed

text \<open>
  C5 as stated fails for \<^verbatim>\<open>PUT /plan\<close>: for a user without a plan it answers 404 and
  creates nothing.
\<close>

theorem update_plan_does_not_bootstrap:
  "request (update_plan sample_platform sample_payload user1) empty_db
     = (Inl (HTTPException 404 no_plan_detail), empty_db)
   \<and> query_plan (snd (request (update_plan sample_platform sample_payload user1) empty_db)) (user_id user1)
     = None"
  by (simp add: request_def update_plan_def query_plan_def empty_db_def get_db_def close_def)

section \<open>Allocation targets\<close>













lemma bootstrap_plan_changes: "working (snd (bootstrap_plan uid s)) \<noteq> working s"
proof
  assume "working (snd (bootstrap_plan uid s)) = working s"
  then have "plans (working (snd (bootstrap_plan uid s))) = plans (working s)" by simp
  then show False by (simp add: bootstrap_plan_store)
qed

lemma request_gtp_store:
  assumes "known_zone w (str_or (timezone current) ''Europe/Rome'')"
  shows "snd (request (get_today_profile_and_distributions w current) db) =
           (case query_plan db (user_id current) of
              Some p \<Rightarrow> db
            | None \<Rightarrow> working (snd (bootstrap_plan (user_id current) (get_db db))))"
  using assms
  by (simp add: request_def get_today_profile_and_distributions_def ZoneInfo_def Let_def split_beta
      close_def bootstrap_plan_committed get_db_def split: option.splits)

section \<open>Schedule classification\<close>

text \<open>
  C7, as the code has it.  With no \<^verbatim>\<open>UserDayMode\<close> row for the user and the weekday, the
  lookup finds nothing and the day's profile has \<open>is_on = False\<close>.  The lookup only reads,
  and the stored day modes are the same after the call; the store as a whole is the same
  exactly when the user already has a plan, since for a user without one the call that
  classifies the day also commits the default plan.
\<close>

theorem missing_day_mode_is_off:
  assumes "\<not> list_ex (\<lambda>m. dm_user_id m = user_id current \<and> dm_weekday m = wd) (day_modes db)"
    and "known_zone w (str_or (timezone current) ''Europe/Rome'')"
    and "weekday (now w (str_or (timezone current) ''Europe/Rome'')) = wd"
  shows "query_day_mode db (user_id current) wd = None
       \<and> (\<exists>dists limits tz t db1.
            request (get_today_profile_and_distributions w current) db
              = (Inr (False, dists, limits, tz, t), db1)
            \<and> day_modes db1 = day_modes db
            \<and> (db1 = db \<longleftrightarrow> query_plan db (user_id current) \<noteq> None))"
proof -
  have q: "query_day_mode db (user_id current) wd = None"
    using assms(1) by (simp add: query_day_mode_def find_None_iff list_ex_iff)
  obtain dists limits s1 where
    g: "get_today_profile_and_distributions w current (get_db db) =
          (Inr (False, dists, limits, str_or (timezone current) ''Europe/Rome'',
                now w (str_or (timezone current) ''Europe/Rome'')), s1)"
    using gtp_total [OF assms(2), of "get_db db"] q assms(3) by (auto simp: get_db_def)
  have r: "request (get_today_profile_and_distributions w current) db =
          (Inr (False, dists, limits, str_or (timezone current) ''Europe/Rome'',
                now w (str_or (timezone current) ''Europe/Rome'')), close s1)"
    using g by (simp add: request_def)
  have d: "day_modes (close s1) = day_modes db"
    by (rule gtp_session(3)[OF g])
  have w: "working (get_db db) = db" by (simp add: get_db_def)
  have "close s1 = (case query_plan db (user_id current) of
              Some p \<Rightarrow> db
            | None \<Rightarrow> working (snd (bootstrap_plan (user_id current) (get_db db))))"
    using request_gtp_store [OF assms(2), of db] r by simp
  then have e: "close s1 = db \<longleftrightarrow> query_plan db (user_id current) \<noteq> None"
    using bootstrap_plan_changes [of "user_id current" "get_db db"]
    by (auto simp: w split: option.splits)
  show ?thesis
    using q r d e by blast
qed

text \<open>
  A store with day modes for the user on another weekday and for another user on this
  weekday: weekday 2 is OFF and nothing is written; weekday 0, which has its row, is ON.
\<close>

theorem missing_day_mode_is_off_witness:
  "query_day_mode schedule_db 1 2 = None
   \<and> (\<exists>dists limits tz t.
        request (get_today_profile_and_distributions (world_at 2 8 20) user1) schedule_db
          = (Inr (False, dists, limits, tz, t), schedule_db))
   \<and> (\<exists>dists limits tz t.
        request (get_today_profile_and_distributions (world_at 0 8 20) user1) schedule_db
          = (Inr (True, dists, limits, tz, t), schedule_db))"
proof -
  have n: "\<not> list_ex (\<lambda>m. dm_user_id m = user_id user1 \<and> dm_weekday m = 2) (day_modes schedule_db)"
    by (simp add: schedule_db_def user1_def)
  have z: "known_zone (world_at 2 8 20) (str_or (timezone user1) ''Europe/Rome'')"
    by (simp add: world_at_def user1_def str_or_def)
  have d: "weekday (now (world_at 2 8 20) (str_or (timezone user1) ''Europe/Rome'')) = 2"
    by (simp add: world_at_def)
  have p: "query_plan schedule_db (user_id user1) \<noteq> None"
    by (simp add: query_plan_def schedule_db_def windows_db_def user1_def plan1_def)
  have on: "\<exists>dists limits tz t.
        request (get_today_profile_and_distributions (world_at 0 8 20) user1) schedule_db
          = (Inr (True, dists, limits, tz, t), schedule_db)"
    by (simp add: request_def get_today_profile_and_distributions_def ZoneInfo_def str_or_def
        world_at_def user1_def query_day_mode_def query_plan_def schedule_db_def windows_db_def
        get_db_def close_def plan1_def)
  from missing_day_mode_is_off [OF n z d] p on show ?thesis
    by (simp add: user1_def)
qed

text \<open>
  C7 as stated fails in "no side effects": for a user with neither a day mode nor a plan,
  the call that classifies the day leaves a store with one plan and nine distributions
  more.
\<close>

theorem classifier_call_bootstraps:
  "\<not> list_ex (\<lambda>m. dm_user_id m = user_id user1 \<and> dm_weekday m = 2) (day_modes empty_db)
   \<and> (\<exists>dists limits tz t db1.
        request (get_today_profile_and_distributions (world_at 2 8 20) user1) empty_db
          = (Inr (False, dists, limits, tz, t), db1)
        \<and> db1 \<noteq> empty_db \<and> length (plans db1) = 1 \<and> length (distributions db1) = 9)"
proof -
  have z: "known_zone (world_at 2 8 20) (str_or (timezone user1) ''Europe/Rome'')"
    by (simp add: world_at_def user1_def str_or_def)
  have q: "query_plan empty_db (user_id user1) = None"
    by (simp add: query_plan_def empty_db_def)
  obtain dists limits s1 where
    g: "get_today_profile_and_distributions (world_at 2 8 20) user1 (get_db empty_db) =
          (Inr (False, dists, limits, str_or (timezone user1) ''Europe/Rome'',
                now (world_at 2 8 20) (str_or (timezone user1) ''Europe/Rome'')), s1)"
    using gtp_total [OF z, of "get_db empty_db"]
    by (auto simp: query_day_mode_def empty_db_def get_db_def)
  have s: "close s1 = working (snd (bootstrap_plan (user_id user1) (get_db empty_db)))"
    using request_gtp_store [OF z, of empty_db] g q by (simp add: request_def)
  have w: "working (get_db empty_db) = empty_db" by (simp add: get_db_def)
  have 1: "close s1 \<noteq> empty_db"
    using bootstrap_plan_changes [of "user_id user1" "get_db empty_db"] s w by simp
  have 2: "length (plans (close s1)) = 1" "length (distributions (close s1)) = 9"
    unfolding s by (simp_all add: bootstrap_plan_store get_db_def empty_db_def on_names_def off_names_def)
  have "request (get_today_profile_and_distributions (world_at 2 8 20) user1) empty_db
          = (Inr (False, dists, limits, str_or (timezone user1) ''Europe/Rome'',
                now (world_at 2 8 20) (str_or (timezone user1) ''Europe/Rome'')), close s1)"
    using g by (simp add: request_def)
  with 1 2 show ?thesis
    by (simp add: empty_db_def) 
qed

section \<open>Time resolution: the default zone\<close>

text \<open>
  C9, as the code has it.  An unset or empty timezone is replaced by \<^verbatim>\<open>Europe/Rome\<close>: the
  profile resolves in that zone when the zone database has it, and ends in the exception
  of \<^verbatim>\<open>ZoneInfo\<close> when it has not.  Any other string goes to \<^verbatim>\<open>ZoneInfo\<close> unchanged: the
  profile resolves in that zone when the key is accepted, and otherwise the exception
  \<^verbatim>\<open>ZoneInfo\<close> raises for the key leaves the function, with nothing substituted and nothing
  written.
\<close>

theorem timezone_fallback:
  "(timezone current = None \<or> timezone current = Some [] \<longrightarrow>
      (known_zone w ''Europe/Rome'' \<longrightarrow>
         (\<exists>b dists limits s1. get_today_profile_and_distributions w current s
            = (Inr (b, dists, limits, ''Europe/Rome'', now w ''Europe/Rome''), s1)))
    \<and> (\<not> known_zone w ''Europe/Rome'' \<longrightarrow>
         get_today_profile_and_distributions w current s = (Inl (zone_error w ''Europe/Rome''), s)))
   \<and> (\<forall>k. timezone current = Some k \<and> k \<noteq> [] \<longrightarrow>
        (known_zone w k \<longrightarrow>
           (\<exists>b dists limits s1. get_today_profile_and_distributions w current s
              = (Inr (b, dists, limits, k, now w k), s1)))
      \<and> (\<not> known_zone w k \<longrightarrow>
           get_today_profile_and_distributions w current s = (Inl (zone_error w k), s)))"
proof -
  have r: "known_zone w (str_or (timezone current) ''Europe/Rome'') \<Longrightarrow>
      \<exists>b dists limits s1. get_today_profile_and_distributions w current s
          = (Inr (b, dists, limits, str_or (timezone current) ''Europe/Rome'',
                  now w (str_or (timezone current) ''Europe/Rome'')), s1)"
    using gtp_total [of w current s] by blast
  have f: "\<not> known_zone w (str_or (timezone current) ''Europe/Rome'') \<Longrightarrow>
      get_today_profile_and_distributions w current s
        = (Inl (zone_error w (str_or (timezone current) ''Europe/Rome'')), s)"
    by (simp add: get_today_profile_and_distributions_def ZoneInfo_def)
  have d: "timezone current = None \<or> timezone current = Some []
      \<Longrightarrow> str_or (timezone current) ''Europe/Rome'' = ''Europe/Rome''"
    by (auto simp: str_or_def)
  have k: "timezone current = Some k \<and> k \<noteq> [] \<Longrightarrow> str_or (timezone current) ''Europe/Rome'' = k" for k
    by (auto simp: str_or_def)
  show ?thesis
  proof (intro conjI impI allI)
    assume a: "timezone current = None \<or> timezone current = Some []"
    { assume "known_zone w ''Europe/Rome''"
      then show "\<exists>b dists limits s1. get_today_profile_and_distributions w current s
            = (Inr (b, dists, limits, ''Europe/Rome'', now w ''Europe/Rome''), s1)"
        using r d [OF a] by simp }
    { assume "\<not> known_zone w ''Europe/Rome''"
      then show "get_today_profile_and_distributions w current s = (Inl (zone_error w ''Europe/Rome''), s)"
        using f d [OF a] by simp }
  next
    fix k assume a: "timezone current = Some k \<and> k \<noteq> []"
    { assume "known_zone w k"
      then show "\<exists>b dists limits s1. get_today_profile_and_distributions w current s
              = (Inr (b, dists, limits, k, now w k), s1)"
        using r k [OF a] by simp }
    { assume "\<not> known_zone w k"
      then show "get_today_profile_and_distributions w current s = (Inl (zone_error w k), s)"
        using f k [OF a] by simp }
  qed
qed

text \<open>
  A user without a timezone; one whose timezone is not in the zone database; one whose
  timezone is an absolute path.
\<close>

theorem timezone_fallback_witness:
  "(\<exists>b dists limits s1. get_today_profile_and_distributions (world_at 2 8 20) user1 (get_db windows_db)
          = (Inr (b, dists, limits, ''Europe/Rome'', now (world_at 2 8 20) ''Europe/Rome''), s1))
   \<and> get_today_profile_and_distributions (world_at 2 8 20) mars_user (get_db windows_db)
          = (Inl (ZoneInfoNotFoundError ''No time zone found with key Mars/Phobos''), get_db windows_db)
   \<and> get_today_profile_and_distributions (world_at 2 8 20) passwd_user (get_db windows_db)
          = (Inl (ValueError ''ZoneInfo keys may not be absolute paths, got: /etc/passwd''), get_db windows_db)"
  using timezone_fallback [of user1 "world_at 2 8 20" "get_db windows_db"]
        timezone_fallback [of mars_user "world_at 2 8 20" "get_db windows_db"]
        timezone_fallback [of passwd_user "world_at 2 8 20" "get_db windows_db"]
  by (simp add: user1_def mars_user_def passwd_user_def world_at_def)

text \<open>
  C9 as stated fails: with the timezone \<^verbatim>\<open>Mars/Phobos\<close> the profile and \<^verbatim>\<open>GET /meals/today\<close>
  end in \<^verbatim>\<open>ZoneInfoNotFoundError\<close>, with \<^verbatim>\<open>/etc/passwd\<close> the profile ends in \<^verbatim>\<open>ValueError\<close>,
  and where the zone database lacks \<^verbatim>\<open>Europe/Rome\<close> even an unset timezone raises.
\<close>

theorem invalid_timezone_raises:
  "request (get_today_profile_and_distributions (world_at 2 8 20) mars_user) windows_db
     = (Inl (ZoneInfoNotFoundError ''No time zone found with key Mars/Phobos''), windows_db)
   \<and> request (meals_today (world_at 2 8 20) mars_user) windows_db
     = (Inl (ZoneInfoNotFoundError ''No time zone found with key Mars/Phobos''), windows_db)
   \<and> request (get_today_profile_and_distributions (world_at 2 8 20) passwd_user) windows_db
     = (Inl (ValueError ''ZoneInfo keys may not be absolute paths, got: /etc/passwd''), windows_db)
   \<and> request (get_today_profile_and_distributions no_tzdata user1) windows_db
     = (Inl (ZoneInfoNotFoundError ''No time zone found with key Europe/Rome''), windows_db)"
  by (simp add: request_def meals_today_def get_today_profile_and_distributions_def ZoneInfo_def
      str_or_def mars_user_def passwd_user_def user1_def no_tzdata_def world_at_def close_def get_db_def)

section \<open>Plan replacement\<close>

lemma validate_sum_iff:
  "validate_sum pf ps = (if sum_deviates pf ps then Inl (HTTPException 400 pct_detail) else Inr ())"
  by (cases ps) (simp_all add: validate_sum_def sum_deviates_def Let_def)

lemma insert_targets_iff:
  "insert_targets new tbl =
     (if distinct (map target_key new) \<and> target_key ` set new \<inter> target_key ` set tbl = {}
      then Inr (tbl @ new) else Inl (IntegrityError ''uq_target_plan_group_name''))"
proof (induction new arbitrary: tbl)
  case Nil
  show ?case by simp
next
  case (Cons t ts)
  have c: "list_ex (\<lambda>r. tgt_plan_id r = tgt_plan_id t \<and> tgt_is_on r = tgt_is_on t \<and> tgt_name r = tgt_name t) tbl
      \<longleftrightarrow> target_key t \<in> target_key ` set tbl"
    unfolding list_ex_iff target_key_def image_iff prod.inject by metis
  show ?case
  proof (cases "target_key t \<in> target_key ` set tbl")
    case True
    then show ?thesis using c by auto
  next
    case False
    have "insert_targets (t # ts) tbl = insert_targets ts (tbl @ [t])"
      using False c by simp
    also have "\<dots> = (if distinct (map target_key ts)
          \<and> target_key ` set ts \<inter> target_key ` set (tbl @ [t]) = {}
        then Inr ((tbl @ [t]) @ ts) else Inl (IntegrityError ''uq_target_plan_group_name''))"
      by (rule Cons.IH)
    also have "\<dots> = (if distinct (map target_key (t # ts))
          \<and> target_key ` set (t # ts) \<inter> target_key ` set tbl = {}
        then Inr (tbl @ t # ts) else Inl (IntegrityError ''uq_target_plan_group_name''))"
      using False by auto
    finally show ?thesis .
  qed
qed

lemma new_target_keys:
  "distinct (map target_key (map (target_of_pct pid True) ons @ map (target_of_pct pid False) offs))
     \<longleftrightarrow> distinct (map pct_name ons) \<and> distinct (map pct_name offs)"
proof -
  have 1: "map target_key (map (target_of_pct pid b) xs) = map (\<lambda>n. (pid, b, n)) (map pct_name xs)" for b xs
    by (simp add: target_key_def target_of_pct_def)
  have 2: "distinct (map (\<lambda>n. (pid, b, n)) ns) = distinct ns" for b and ns :: "string list"
    by (simp add: distinct_map inj_on_def)
  show ?thesis
    unfolding map_append distinct_append 1 2 by auto
qed

lemma new_target_keys_fresh:
  "target_key ` set (map (target_of_pct pid True) ons @ map (target_of_pct pid False) offs)
     \<inter> target_key ` set (filter (\<lambda>t. tgt_plan_id t \<noteq> pid) tbl) = {}"
  by (auto simp: target_key_def target_of_pct_def)

lemma insert_new_targets:
  "insert_targets (map (target_of_pct pid True) ons @ map (target_of_pct pid False) offs)
                  (filter (\<lambda>t. tgt_plan_id t \<noteq> pid) tbl) =
     (if distinct (map pct_name ons) \<and> distinct (map pct_name offs)
      then Inr (filter (\<lambda>t. tgt_plan_id t \<noteq> pid) tbl
                @ map (target_of_pct pid True) ons @ map (target_of_pct pid False) offs)
      else Inl (IntegrityError ''uq_target_plan_group_name''))"
  unfolding insert_targets_iff new_target_keys
  using new_target_keys_fresh [of pid ons offs tbl] by simp


lemma update_plan_session:
  assumes "query_plan db (user_id current) = Some plan" and "limits_fit pf payload"
    and "sum_deviates pf (on_pcts payload) \<or> sum_deviates pf (off_pcts payload)"
  shows "update_plan pf payload current (get_db db) =
           (Inl (HTTPException 400 pct_detail),
            \<lparr>committed = db, working = (replace_store db plan payload)\<lparr>targets := targets db\<rparr>\<rparr>)"
  using assms
  by (auto simp: update_plan_def Let_def get_db_def validate_sum_iff replace_store_def)

lemma update_plan_request:
  "request (update_plan pf payload current) db =
     (case query_plan db (user_id current) of
        None \<Rightarrow> (Inl (HTTPException 404 no_plan_detail), db)
      | Some plan \<Rightarrow>
          if \<not> limits_fit pf payload then (Inl (OverflowError overflow_detail), db)
          else if sum_deviates pf (on_pcts payload) \<or> sum_deviates pf (off_pcts payload)
          then (Inl (HTTPException 400 pct_detail), db)
          else if \<not> (distinct (map pct_name (on_pcts payload)) \<and> distinct (map pct_name (off_pcts payload)))
          then (Inl (IntegrityError ''uq_target_plan_group_name''), db)
          else if \<not> list_all (dist_fits pf) (on_distributions payload @ off_distributions payload)
          then (Inl (OverflowError overflow_detail), db)
          else (Inr True, replace_store db plan payload))"
proof (cases "query_plan db (user_id current)")
  case None
  then show ?thesis
    by (simp add: request_def update_plan_def get_db_def close_def)
next
  case (Some plan)
  have w: "working (get_db db) = db" "committed (get_db db) = db" by (simp_all add: get_db_def)
  show ?thesis
  proof (cases "limits_fit pf payload")
    case False
    then show ?thesis using Some
      by (simp add: request_def update_plan_def Let_def w close_def)
  next
    case fit: True
    show ?thesis
    proof (cases "sum_deviates pf (on_pcts payload) \<or> sum_deviates pf (off_pcts payload)")
      case True
      then show ?thesis using Some fit
        by (simp add: request_def update_plan_session close_def)
    next
      case False
      show ?thesis
      proof (cases "distinct (map pct_name (on_pcts payload)) \<and> distinct (map pct_name (off_pcts payload))")
        case d: False
        with False Some fit show ?thesis
          by (auto simp: request_def update_plan_def Let_def w validate_sum_iff close_def
              insert_new_targets)
      next
        case True
        show ?thesis
        proof (cases "list_all (dist_fits pf) (on_distributions payload @ off_distributions payload)")
          case nf: False
          with False Some fit True show ?thesis
            by (simp add: request_def update_plan_def Let_def w validate_sum_iff close_def
                insert_new_targets)
        next
          case df: True
          with False Some fit True show ?thesis
            by (simp add: request_def update_plan_def Let_def w validate_sum_iff close_def
                insert_new_targets commit_def replace_store_def)
        qed
      qed
    qed
  qed
qed

section \<open>Plan replacement: all or nothing\<close>


lemma query_plan_windows: "query_plan windows_db (user_id user1) = Some plan1"
  by (simp add: query_plan_def windows_db_def user1_def plan1_def)


lemma sample_fits:
  "limits_fit sample_platform sample_payload" "limits_fit sample_platform bad_payload"
  "limits_fit sample_platform dup_payload" "\<not> limits_fit sample_platform big_payload"
  "list_all (dist_fits sample_platform) (on_distributions sample_payload)"
  "list_all (dist_fits sample_platform) (off_distributions sample_payload)"
  "list_all (dist_fits sample_platform) (on_distributions dup_payload)"
  "list_all (dist_fits sample_platform) (off_distributions dup_payload)"
  by (simp_all add: limits_fit_def dist_fits_def sample_platform_def sample_payload_def bad_payload_def
      dup_payload_def big_payload_def)





lemma request_get_plan_targets: "targets (snd (request (get_plan current) db)) = targets db"
  by (cases "query_plan db (user_id current)")
     (simp_all add: request_def get_plan_def Let_def split_beta close_def get_db_def
        bootstrap_plan_committed bootstrap_plan_tables)


section \<open>Plan replacement: empty groups\<close>

text \<open>
  C10, as the code has it.  The sums of an empty group are 0, so \<^const>\<open>validate_sum\<close>
  rejects it.  A \<^verbatim>\<open>PUT /plan\<close> with an empty \<open>on_pcts\<close> or \<open>off_pcts\<close> never succeeds and
  leaves the store unchanged: it is answered 404 when the user has no plan, with the failure
  of the flush when a submitted limit is outside the store's integer range, and with the
  validation error (400) in every other case.  The bootstrap itself stores no target.
\<close>

theorem empty_group_rejected:
  assumes "on_pcts payload = [] \<or> off_pcts payload = []"
  shows "validate_sum pf [] = Inl (HTTPException 400 pct_detail)
       \<and> request (update_plan pf payload current) db =
           (case query_plan db (user_id current) of
              None \<Rightarrow> (Inl (HTTPException 404 no_plan_detail), db)
            | Some plan \<Rightarrow>
                if limits_fit pf payload then (Inl (HTTPException 400 pct_detail), db)
                else (Inl (OverflowError overflow_detail), db))
       \<and> (\<forall>r. fst (request (update_plan pf payload current) db) \<noteq> Inr r)
       \<and> targets (snd (request (get_plan current) db)) = targets db"
proof -
  have e: "sum_deviates pf []" by (simp add: sum_deviates_def)
  then have d: "sum_deviates pf (on_pcts payload) \<or> sum_deviates pf (off_pcts payload)"
    using assms by auto
  have v: "validate_sum pf [] = Inl (HTTPException 400 pct_detail)"
    using e by (simp add: validate_sum_iff)
  have u: "request (update_plan pf payload current) db =
           (case query_plan db (user_id current) of
              None \<Rightarrow> (Inl (HTTPException 404 no_plan_detail), db)
            | Some plan \<Rightarrow>
                if limits_fit pf payload then (Inl (HTTPException 400 pct_detail), db)
                else (Inl (OverflowError overflow_detail), db))"
    using d by (simp add: update_plan_request split: option.splits)
  have n: "\<forall>r. fst (request (update_plan pf payload current) db) \<noteq> Inr r"
    unfolding u by (simp split: option.splits)
  from v u n request_get_plan_targets [of current db] show ?thesis by blast
qed

text \<open>
  An empty OFF group for a user with a plan.
\<close>

theorem empty_group_rejected_witness:
  "request (update_plan sample_platform (sample_payload\<lparr>off_pcts := []\<rparr>) user1) windows_db
     = (Inl (HTTPException 400 pct_detail), windows_db)"
proof -
  have f: "limits_fit sample_platform (sample_payload\<lparr>off_pcts := []\<rparr>)"
    using sample_fits(1) by (simp add: limits_fit_def)
  show ?thesis
    using empty_group_rejected [of "sample_payload\<lparr>off_pcts := []\<rparr>" sample_platform user1 windows_db]
      query_plan_windows f
    by simp
qed

text \<open>
  C10 as stated fails: a request with an empty group is answered 404 for a user without a
  plan, and with the failure of the flush, for a user with a plan, when a limit is
  \<open>2 ^ 63\<close>; neither is the validation error.
\<close>

theorem empty_group_claim_fails:
  "on_pcts (sample_payload\<lparr>on_pcts := []\<rparr>) = []
   \<and> request (update_plan sample_platform (sample_payload\<lparr>on_pcts := []\<rparr>) user1) empty_db
       = (Inl (HTTPException 404 no_plan_detail), empty_db)
   \<and> off_pcts big_payload = []
   \<and> query_plan windows_db (user_id user1) = Some plan1
   \<and> request (update_plan sample_platform big_payload user1) windows_db
       = (Inl (OverflowError overflow_detail), windows_db)"
  by (simp add: update_plan_request query_plan_windows sample_fits)
     (simp add: query_plan_def empty_db_def big_payload_def)

end
